theory Spec2Isabelle
  imports Main
begin

section \<open>chromecastize.py: a shallow embedding\<close>

text \<open>
  The script decides, per media file, whether the container, the video codec and the
  audio codec are playable, and otherwise runs one ffmpeg conversion. Everything outside
  the script (pymediainfo, python-magic, ffmpeg, the directory listing) is a field of an
  environment record, an arbitrary function of its arguments and of the current file
  system; the script's own effects (files, the two output streams, the external calls it
  makes) are fields of a world record that every function takes and returns. A Python
  exception is the \<open>Raise\<close> result, which carries the world at the moment of the raise.

  What the embedding leaves out: the parsing of the command line (the parsed arguments
  are given), signals such as a keyboard interrupt, exceptions of the external libraries
  other than the probe's and \<open>ffmpeg.Error\<close>, permissions, and the contents of
  directories (renaming a directory moves its node only; a directory listing is whatever
  the environment answers). Paths, file contents and printed lines are texts: a path or
  a file whose bytes are not text in the encoding of the locale, and an output stream
  that cannot encode a text, have no counterpart here. The one place where the script
  itself decodes bytes, \<open>e.stderr.decode()\<close>, is modelled. The field \<open>calls\<close> of
  the world is not state of the script: it records, in order, the external calls a run
  has made.
\<close>

subsection \<open>Module constants (lines 11-20)\<close>

definition SUPPORTED_EXTENSIONS :: "string list" where
  "SUPPORTED_EXTENSIONS =
     [''mkv'', ''avi'', ''mp4'', ''3gp'', ''mov'', ''mpg'', ''mpeg'', ''qt'', ''wmv'', ''m2ts'', ''flv'']"

definition SUPPORTED_SUBTITLE_EXTENSIONS :: "string list" where
  "SUPPORTED_SUBTITLE_EXTENSIONS = [''srt'', ''ssa'']"

definition SUPPORTED_GFORMATS :: "string list" where
  "SUPPORTED_GFORMATS = [''MPEG-4'', ''Matroska'']"

definition SUPPORTED_VCODECS :: "string list" where
  "SUPPORTED_VCODECS = [''AVC'']"

definition SUPPORTED_ACODECS :: "string list" where
  "SUPPORTED_ACODECS = [''AAC'', ''MPEG Audio'', ''Vorbis'', ''Ogg'', ''Opus'']"

definition DEFAULT_VCODEC :: string where
  "DEFAULT_VCODEC = ''h264''"

definition DEFAULT_ACODEC :: string where
  "DEFAULT_ACODEC = ''libvorbis''"

definition DEFAULT_GFORMAT :: string where
  "DEFAULT_GFORMAT = ''mp4''"

subsection \<open>Exceptions\<close>

datatype exn =
    FileNotFoundError
  | IsADirectoryError
  | NotADirectoryError
  | OSError
  | StopIteration
  | TypeError
  | ValueError
  | AttributeError
  | UnicodeDecodeError

subsection \<open>Bytes and text\<close>

text \<open>
  A \<open>string\<close> is a list of bytes; a text is held as its UTF-8 bytes. \<open>decode\<close> is
  \<open>bytes.decode()\<close>, the strict UTF-8 decoder: it raises \<open>UnicodeDecodeError\<close> on
  bytes that are not well-formed UTF-8 (a wrong lead byte, a missing or wrong continuation
  byte, an overlong form, a surrogate, a code point beyond U+10FFFF). \<open>trail\<close> gives,
  for a lead byte, the ranges of the bytes that must follow it.
\<close>

definition byte_in :: "char \<Rightarrow> nat \<Rightarrow> nat \<Rightarrow> bool" where
  "byte_in c lo hi = (lo \<le> of_char c \<and> (of_char c :: nat) \<le> hi)"

definition trail :: "char \<Rightarrow> (nat \<times> nat) list option" where
  "trail c =
     (if byte_in c 0x00 0x7F then Some []
      else if byte_in c 0xC2 0xDF then Some [(0x80, 0xBF)]
      else if byte_in c 0xE0 0xE0 then Some [(0xA0, 0xBF), (0x80, 0xBF)]
      else if byte_in c 0xE1 0xEC then Some [(0x80, 0xBF), (0x80, 0xBF)]
      else if byte_in c 0xED 0xED then Some [(0x80, 0x9F), (0x80, 0xBF)]
      else if byte_in c 0xEE 0xEF then Some [(0x80, 0xBF), (0x80, 0xBF)]
      else if byte_in c 0xF0 0xF0 then Some [(0x90, 0xBF), (0x80, 0xBF), (0x80, 0xBF)]
      else if byte_in c 0xF1 0xF3 then Some [(0x80, 0xBF), (0x80, 0xBF), (0x80, 0xBF)]
      else if byte_in c 0xF4 0xF4 then Some [(0x80, 0x8F), (0x80, 0xBF), (0x80, 0xBF)]
      else None)"

fun follows :: "(nat \<times> nat) list \<Rightarrow> string \<Rightarrow> bool" where
  "follows [] cs = True"
| "follows ((lo, hi) # rs) [] = False"
| "follows ((lo, hi) # rs) (c # cs) = (byte_in c lo hi \<and> follows rs cs)"

function utf8_valid :: "string \<Rightarrow> bool" where
  "utf8_valid [] = True"
| "utf8_valid (c # cs) =
     (case trail c of
        None \<Rightarrow> False
      | Some rs \<Rightarrow> follows rs cs \<and> utf8_valid (drop (length rs) cs))"
  by pat_completeness auto
termination
  by (relation "measure length") auto

definition decode :: "string \<Rightarrow> exn + string" where
  "decode bs = (if utf8_valid bs then Inr bs else Inl UnicodeDecodeError)"

subsection \<open>Paths: what the script uses of pathlib\<close>

text \<open>
  An absolute POSIX path is the list of its components below the root. \<open>str_path\<close> is
  Python's \<open>str(path)\<close>, \<open>path_name\<close> is \<open>path.name\<close>, \<open>path_suffix\<close> is
  \<open>path.suffix\<close> (the text from the last dot of the name on, dot included, and empty
  when the last dot is the first or the last character of the name), and \<open>with_suffix\<close>
  is \<open>path.with_suffix(s)\<close> with its three \<open>ValueError\<close> cases, both as in CPython
  3.4 to 3.12.
\<close>

type_synonym path = "string list"

definition str_path :: "path \<Rightarrow> string" where
  "str_path p = (if p = [] then ''/'' else concat (map (\<lambda>c. CHR ''/'' # c) p))"

definition path_name :: "path \<Rightarrow> string" where
  "path_name p = (if p = [] then [] else last p)"

definition name_suffix :: "string \<Rightarrow> string" where
  "name_suffix nm =
     (if CHR ''.'' \<in> set nm
      then (let i = length nm - length (takeWhile (\<lambda>c. c \<noteq> CHR ''.'') (rev nm)) - 1
            in if 0 < i \<and> i < length nm - 1 then drop i nm else [])
      else [])"

definition path_suffix :: "path \<Rightarrow> string" where
  "path_suffix p = name_suffix (path_name p)"

definition with_suffix :: "path \<Rightarrow> string \<Rightarrow> exn + path" where
  "with_suffix p s =
     (if CHR ''/'' \<in> set s then Inl ValueError
      else if (s \<noteq> [] \<and> hd s \<noteq> CHR ''.'') \<or> s = ''.'' then Inl ValueError
      else if path_name p = [] then Inl ValueError
      else Inr (butlast p @
                [take (length (path_name p) - length (path_suffix p)) (path_name p) @ s]))"

subsection \<open>The file system\<close>

text \<open>
  A path holds a regular file with its text (what reading it in text mode gives), a
  directory, or something else (a device, a socket). The operations are the ones the script calls: \<open>exists\<close>, \<open>is_dir\<close>,
  \<open>is_file\<close>, \<open>open()\<close> for reading and for appending, \<open>unlink\<close> and \<open>replace\<close>.
\<close>

datatype node = File string | Dir | Other

type_synonym filesys = "path \<Rightarrow> node option"

definition path_exists :: "filesys \<Rightarrow> path \<Rightarrow> bool" where
  "path_exists f p = (f p \<noteq> None)"

definition is_dir :: "filesys \<Rightarrow> path \<Rightarrow> bool" where
  "is_dir f p = (f p = Some Dir)"

definition is_file :: "filesys \<Rightarrow> path \<Rightarrow> bool" where
  "is_file f p = (case f p of Some (File c) \<Rightarrow> True | _ \<Rightarrow> False)"

text \<open>
  Iterating over a file opened in text mode yields its lines, each with its line end,
  where \<open>\r\n\<close> and \<open>\r\<close> are read as \<open>\n\<close>; a last line without a line end is
  yielded as it is.
\<close>

function readlines :: "string \<Rightarrow> string list" where
  "readlines [] = []"
| "readlines (c # cs) =
     (if c = CHR 0x0D
      then [CHR 0x0A] # readlines (if cs \<noteq> [] \<and> hd cs = CHR 0x0A then tl cs else cs)
      else if c = CHR 0x0A then [CHR 0x0A] # readlines cs
      else (case readlines cs of [] \<Rightarrow> [[c]] | l # ls \<Rightarrow> (c # l) # ls))"
  by pat_completeness auto
termination
  by (relation "measure length") auto

definition open_read :: "filesys \<Rightarrow> path \<Rightarrow> exn + string list" where
  "open_read f p =
     (case f p of
        None \<Rightarrow> Inl FileNotFoundError
      | Some Dir \<Rightarrow> Inl IsADirectoryError
      | Some Other \<Rightarrow> Inl OSError
      | Some (File c) \<Rightarrow> Inr (readlines c))"

definition open_append :: "filesys \<Rightarrow> path \<Rightarrow> string \<Rightarrow> exn + filesys" where
  "open_append f p s =
     (case f p of
        None \<Rightarrow>
          (if p = [] then Inl IsADirectoryError
           else (case f (butlast p) of
                   None \<Rightarrow> Inl FileNotFoundError
                 | Some Dir \<Rightarrow> Inr (f(p \<mapsto> File s))
                 | Some n \<Rightarrow> Inl NotADirectoryError))
      | Some Dir \<Rightarrow> Inl IsADirectoryError
      | Some Other \<Rightarrow> Inl OSError
      | Some (File c) \<Rightarrow> Inr (f(p \<mapsto> File (c @ s))))"

definition unlink :: "filesys \<Rightarrow> path \<Rightarrow> exn + filesys" where
  "unlink f p =
     (case f p of
        None \<Rightarrow> Inl FileNotFoundError
      | Some Dir \<Rightarrow> Inl IsADirectoryError
      | Some n \<Rightarrow> Inr (f(p := None)))"

definition replace :: "filesys \<Rightarrow> path \<Rightarrow> path \<Rightarrow> exn + filesys" where
  "replace f src dst =
     (case f src of
        None \<Rightarrow> Inl FileNotFoundError
      | Some n \<Rightarrow>
          (if f dst = Some Dir \<and> n \<noteq> Dir then Inl IsADirectoryError
           else if n = Dir \<and> f dst \<noteq> None \<and> f dst \<noteq> Some Dir then Inl NotADirectoryError
           else Inr ((f(src := None))(dst \<mapsto> n))))"

subsection \<open>The external capabilities and the world\<close>

text \<open>
  A track of \<open>MediaInfo.parse(...).tracks\<close>: pymediainfo gives \<open>None\<close> for an attribute
  the file does not have, so \<open>format\<close> and \<open>channel_s\<close> are optional; \<open>duration\<close> is the
  text \<open>str(track.duration)\<close>.
\<close>

record track =
  track_type :: string
  format :: "string option"
  channel_s :: "int option"
  duration :: string

text \<open>
  The two ffmpeg invocations of the script: the subtitle conversion (input with
  \<open>sub_charenc\<close>, output, \<open>-y\<close>) and the media conversion (input, output with
  \<open>vcodec\<close>, \<open>acodec\<close>, \<open>scodec\<close>, overwriting). A run either succeeds and leaves a
  file at the destination, or raises \<open>ffmpeg.Error\<close>, whose \<open>stderr\<close> is bytes (any
  bytes, decodable or not) or \<open>None\<close>, and may leave a partial file at the
  destination.
\<close>

datatype ffmpeg_call =
    Subtitle_run path string path
  | Media_run path path string string string

datatype ffmpeg_result =
    Succeeded string
  | Failed "string option" "string option"

datatype call = Detect path | Probe path | Ffmpeg ffmpeg_call

definition ffmpeg_effect :: "path \<Rightarrow> ffmpeg_result \<Rightarrow> filesys \<Rightarrow> filesys" where
  "ffmpeg_effect dst r f =
     (case r of
        Succeeded c \<Rightarrow> f(dst \<mapsto> File c)
      | Failed e None \<Rightarrow> f
      | Failed e (Some c) \<Rightarrow> f(dst \<mapsto> File c))"

record env =
  home :: path
  mediainfo_parse :: "path \<Rightarrow> filesys \<Rightarrow> exn + track list"
  magic_from_file :: "path \<Rightarrow> filesys \<Rightarrow> string"
  ffmpeg_run :: "ffmpeg_call \<Rightarrow> filesys \<Rightarrow> ffmpeg_result"
  iterdir :: "path \<Rightarrow> filesys \<Rightarrow> string list"

record world =
  fs :: filesys
  stdout :: "string list"
  stderr :: "string list"
  calls :: "call list"

datatype result = Return world | Raise exn world

definition world_of :: "result \<Rightarrow> world" where
  "world_of r = (case r of Return w \<Rightarrow> w | Raise e w \<Rightarrow> w)"

definition raised :: "result \<Rightarrow> exn option" where
  "raised r = (case r of Return w \<Rightarrow> None | Raise e w \<Rightarrow> Some e)"

definition print :: "string \<Rightarrow> world \<Rightarrow> world" where
  "print s w = w\<lparr>stdout := stdout w @ [s]\<rparr>"

definition print_err :: "string \<Rightarrow> world \<Rightarrow> world" where
  "print_err s w = w\<lparr>stderr := stderr w @ [s]\<rparr>"

subsection \<open>is_supported_acodec (lines 29-30)\<close>

text \<open>
  \<open>not (codec == "AAC" and channels > 2) and codec in _SUPPORTED_ACODECS\<close>: the
  comparison \<open>channels > 2\<close> is evaluated only for AAC, and raises \<open>TypeError\<close> when
  the channel count is \<open>None\<close>.
\<close>

definition py_gt :: "int option \<Rightarrow> int \<Rightarrow> exn + bool" where
  "py_gt a b = (case a of None \<Rightarrow> Inl TypeError | Some n \<Rightarrow> Inr (n > b))"

definition in_list :: "string option \<Rightarrow> string list \<Rightarrow> bool" where
  "in_list x xs = (case x of None \<Rightarrow> False | Some s \<Rightarrow> s \<in> set xs)"

definition is_supported_acodec :: "string option \<Rightarrow> int option \<Rightarrow> exn + bool" where
  "is_supported_acodec codec channels =
     (case (if codec = Some ''AAC'' then py_gt channels 2 else Inr False) of
        Inl e \<Rightarrow> Inl e
      | Inr aac_surround \<Rightarrow> Inr (\<not> aac_surround \<and> in_list codec SUPPORTED_ACODECS))"

subsection \<open>mark_as_good (lines 32-34)\<close>

definition mark_as_good :: "path \<Rightarrow> path \<Rightarrow> world \<Rightarrow> result" where
  "mark_as_good video_file processed_files w =
     (case open_append (fs w) processed_files (str_path video_file @ [CHR 0x0A]) of
        Inl e \<Rightarrow> Raise e w
      | Inr f \<Rightarrow> Return (w\<lparr>fs := f\<rparr>))"

subsection \<open>process_subtitle_file (lines 36-54)\<close>

text \<open>
  \<open>subtitle_loop\<close> is the \<open>for sub_extension in ...\<close> loop: the first extension whose
  sibling exists is converted and ends the loop (\<open>break\<close>). The \<open>except\<close> clause prints
  \<open>e.stderr.decode()\<close>, which raises \<open>AttributeError\<close> when \<open>stderr\<close> is \<open>None\<close>
  and \<open>UnicodeDecodeError\<close> when the bytes are not UTF-8; either exception leaves the
  function.
\<close>

fun subtitle_loop :: "env \<Rightarrow> path \<Rightarrow> path \<Rightarrow> string list \<Rightarrow> world \<Rightarrow> result" where
  "subtitle_loop env video_file destination_subtitle [] w = Return w"
| "subtitle_loop env video_file destination_subtitle (sub_extension # rest) w =
     (case with_suffix video_file (''.'' @ sub_extension) of
        Inl e \<Rightarrow> Raise e w
      | Inr subtitle \<Rightarrow>
          if path_exists (fs w) subtitle
          then (let detected = magic_from_file env subtitle (fs w);
                    sub_encoding = (if detected = ''unknown-8bit'' then ''iso-8859-1'' else detected);
                    run = Subtitle_run subtitle sub_encoding destination_subtitle;
                    r = ffmpeg_run env run (fs w);
                    w1 = w\<lparr>fs := ffmpeg_effect destination_subtitle r (fs w),
                            calls := calls w @ [Detect subtitle, Ffmpeg run]\<rparr>
                in (case r of
                      Succeeded c \<Rightarrow>
                        Return (print (''- generated subtitle '' @ str_path destination_subtitle) w1)
                    | Failed None partial \<Rightarrow> Raise AttributeError w1
                    | Failed (Some err) partial \<Rightarrow>
                        (case decode err of
                           Inl e \<Rightarrow> Raise e w1
                         | Inr msg \<Rightarrow> Return (print_err msg w1))))
          else subtitle_loop env video_file destination_subtitle rest w)"

definition process_subtitle_file :: "env \<Rightarrow> path \<Rightarrow> world \<Rightarrow> result" where
  "process_subtitle_file env video_file w =
     (case with_suffix video_file ''.vtt'' of
        Inl e \<Rightarrow> Raise e w
      | Inr destination_subtitle \<Rightarrow>
          if \<not> path_exists (fs w) destination_subtitle
          then subtitle_loop env video_file destination_subtitle SUPPORTED_SUBTITLE_EXTENSIONS w
          else Return w)"

subsection \<open>on_success (lines 56-61) and on_failure (lines 63-67)\<close>

definition on_success :: "path \<Rightarrow> path \<Rightarrow> path \<Rightarrow> world \<Rightarrow> result" where
  "on_success original_file destination_file processed_files w =
     (let w1 = print (''- conversion succeeded; file '' @ str_path destination_file @ '' saved'') w
      in case with_suffix original_file (path_suffix original_file @ ''.bak'') of
           Inl e \<Rightarrow> Raise e w1
         | Inr original_backup \<Rightarrow>
             (let w2 = print (''- renaming original file as '' @ str_path original_backup) w1
              in case replace (fs w2) original_file original_backup of
                   Inl e \<Rightarrow> Raise e w2
                 | Inr f \<Rightarrow> mark_as_good destination_file processed_files (w2\<lparr>fs := f\<rparr>)))"

definition on_failure :: "path \<Rightarrow> path \<Rightarrow> world \<Rightarrow> result" where
  "on_failure video_file destination_file w =
     (let w1 = print (''- failed to convert '' @ str_path video_file @
                      '' (or conversion has been interrupted)'') w
      in if path_exists (fs w1) destination_file
         then (let w2 = print ''- deleting partially converted file...'' w1
               in case unlink (fs w2) destination_file of
                    Inl e \<Rightarrow> Raise e w2
                  | Inr f \<Rightarrow> Return (w2\<lparr>fs := f\<rparr>))
         else Return w1)"

subsection \<open>process_file (lines 69-130)\<close>

text \<open>
  \<open>first_track\<close> is \<open>next(filter(lambda t: t.track_type == ty, tracks))\<close>, which raises
  \<open>StopIteration\<close> when no track has the type.
\<close>

definition first_track :: "string \<Rightarrow> track list \<Rightarrow> exn + track" where
  "first_track ty tracks =
     (case filter (\<lambda>t. track_type t = ty) tracks of
        [] \<Rightarrow> Inl StopIteration
      | t # ts \<Rightarrow> Inr t)"

text \<open>
  Lines 95-99, the container decision. \<open>truthy\<close> is Python's truth value of the
  override (\<open>None\<close> and the empty string are false); \<open>extension\<close> is
  \<open>video_file.suffix\<close>, with its dot.
\<close>

definition truthy :: "string option \<Rightarrow> bool" where
  "truthy x = (case x of None \<Rightarrow> False | Some s \<Rightarrow> s \<noteq> [])"

definition output_gformat_of :: "string \<Rightarrow> string option \<Rightarrow> string \<Rightarrow> string" where
  "output_gformat_of general_format override_gformat extension =
     (if (general_format \<in> set SUPPORTED_GFORMATS \<and> \<not> truthy override_gformat)
          \<or> override_gformat = Some extension
      then ''ok''
      else (case override_gformat of
              None \<Rightarrow> DEFAULT_GFORMAT
            | Some s \<Rightarrow> if s \<noteq> [] then s else DEFAULT_GFORMAT))"

text \<open>
  Line 104 and line 109, the two codec decisions: \<open>"copy" if ... else default\<close>.
\<close>

definition output_vcodec_of :: "string option \<Rightarrow> string" where
  "output_vcodec_of video_format =
     (if in_list video_format SUPPORTED_VCODECS then ''copy'' else DEFAULT_VCODEC)"

definition output_acodec_of :: "string option \<Rightarrow> int option \<Rightarrow> exn + string" where
  "output_acodec_of audio_format channels =
     (case is_supported_acodec audio_format channels of
        Inl e \<Rightarrow> Inl e
      | Inr supported \<Rightarrow> Inr (if supported then ''copy'' else DEFAULT_ACODEC))"

text \<open>
  Lines 115-130, the \<open>else\<close> branch: the conversion. In the \<open>except\<close> clause
  \<open>e.stderr.decode()\<close> is evaluated before \<open>on_failure\<close> is called, so when it
  raises (\<open>AttributeError\<close> on \<open>None\<close>, \<open>UnicodeDecodeError\<close> on bytes that are not
  UTF-8) the partial output is not cleaned up and the exception leaves \<open>process_file\<close>.
\<close>

definition convert ::
  "env \<Rightarrow> path \<Rightarrow> string \<Rightarrow> path \<Rightarrow> string \<Rightarrow> string \<Rightarrow> string \<Rightarrow> string \<Rightarrow> world \<Rightarrow> result" where
  "convert env video_file extension processed_files general_duration
           output_gformat output_vcodec output_acodec w =
     (let w1 = print (''- video length: '' @ general_duration) w;
          output_gformat1 = (if output_gformat = ''ok'' then extension else output_gformat)
      in case with_suffix video_file (''.'' @ output_gformat1) of
           Inl e \<Rightarrow> Raise e w1
         | Inr destination_file \<Rightarrow>
             (let run = Media_run video_file destination_file output_vcodec output_acodec ''copy'';
                  r = ffmpeg_run env run (fs w1);
                  w2 = w1\<lparr>fs := ffmpeg_effect destination_file r (fs w1),
                          calls := calls w1 @ [Ffmpeg run]\<rparr>
              in (case r of
                    Succeeded c \<Rightarrow> on_success video_file destination_file processed_files w2
                  | Failed None partial \<Rightarrow> Raise AttributeError w2
                  | Failed (Some err) partial \<Rightarrow>
                      (case decode err of
                         Inl e \<Rightarrow> Raise e w2
                       | Inr msg \<Rightarrow> on_failure video_file destination_file (print_err msg w2)))))"

text \<open>Lines 88-114: from the General track to the branch on the three decisions.\<close>

definition process_tracks ::
  "env \<Rightarrow> path \<Rightarrow> string option \<Rightarrow> string \<Rightarrow> path \<Rightarrow> track list \<Rightarrow> world \<Rightarrow> result" where
  "process_tracks env video_file override_gformat extension processed_files tracks w =
     (case first_track ''General'' tracks of
        Inl e \<Rightarrow> Raise e w
      | Inr general_track \<Rightarrow>
          if \<not> truthy (format general_track)
          then Return (print ''- error reading track info, skipping '' w)
          else
            (let general_format = the (format general_track);
                 output_gformat = output_gformat_of general_format override_gformat extension;
                 w1 = print (''- general: '' @ general_format @ '' -> '' @ output_gformat) w
             in case first_track ''Video'' tracks of
                  Inl e \<Rightarrow> Raise e w1
                | Inr video_track \<Rightarrow>
                    (let output_vcodec = output_vcodec_of (format video_track)
                     in case format video_track of
                          None \<Rightarrow> Raise TypeError w1
                        | Some video_format \<Rightarrow>
                            (let w2 = print (''- video: '' @ video_format @ '' -> '' @ output_vcodec) w1
                             in case first_track ''Audio'' tracks of
                                  Inl e \<Rightarrow> Raise e w2
                                | Inr audio_track \<Rightarrow>
                                    (case output_acodec_of (format audio_track)
                                            (channel_s audio_track) of
                                       Inl e \<Rightarrow> Raise e w2
                                     | Inr output_acodec \<Rightarrow>
                                         (case format audio_track of
                                               None \<Rightarrow> Raise TypeError w2
                                             | Some audio_format \<Rightarrow>
                                                 (let w3 = print (''- audio: '' @ audio_format @
                                                                  '' -> '' @ output_acodec) w2
                                                  in if output_vcodec = ''copy''
                                                        \<and> output_acodec = ''copy''
                                                        \<and> output_gformat = ''ok''
                                                     then mark_as_good video_file processed_files
                                                            (print ''- file should be playable by Chromecast!'' w3)
                                                     else convert env video_file extension
                                                            processed_files (duration general_track)
                                                            output_gformat output_vcodec
                                                            output_acodec w3)))))))"

text \<open>
  Lines 69-86: the extension test, the subtitle pass and the scan of the ledger
  \<open>~/.chromecastize/processed_files\<close>, which is opened for reading.
\<close>

definition ledger_path :: "env \<Rightarrow> path" where
  "ledger_path env = home env @ [''.chromecastize'', ''processed_files'']"

definition process_file :: "env \<Rightarrow> path \<Rightarrow> string option \<Rightarrow> world \<Rightarrow> result" where
  "process_file env video_file override_gformat w =
     (let w1 = print (''Processing: '' @ str_path video_file) (print ''==========='' w);
          extension = path_suffix video_file
      in if filter (\<lambda>c. c \<noteq> CHR ''.'') extension \<notin> set SUPPORTED_EXTENSIONS
         then Return (print (''- not a video format, skipping '' @ extension) w1)
         else
           (case process_subtitle_file env video_file w1 of
              Raise e w2 \<Rightarrow> Raise e w2
            | Return w2 \<Rightarrow>
                (let processed_files = ledger_path env
                 in case open_read (fs w2) processed_files of
                      Inl e \<Rightarrow> Raise e w2
                    | Inr ledger_lines \<Rightarrow>
                        if str_path video_file @ [CHR 0x0A] \<in> set ledger_lines
                        then Return (print ''- file was generated by `chromecastize`, skipping'' w2)
                        else
                          (let w3 = w2\<lparr>calls := calls w2 @ [Probe video_file]\<rparr>
                           in case mediainfo_parse env video_file (fs w2) of
                                Inl e \<Rightarrow> Raise e w3
                              | Inr tracks \<Rightarrow>
                                  process_tracks env video_file override_gformat extension
                                    processed_files tracks w3))))"

subsection \<open>main (lines 133-143) and the script entry (lines 145-148)\<close>

text \<open>
  \<open>process_all\<close> is the loop over \<open>path.iterdir()\<close>; both loops stop at the first
  exception, since \<open>main\<close> has no handler. \<open>main\<close> calls \<open>process_file\<close> with one
  argument, so the override is its default, \<open>None\<close>.
\<close>

fun process_all :: "env \<Rightarrow> path list \<Rightarrow> world \<Rightarrow> result" where
  "process_all env [] w = Return w"
| "process_all env (video_file # rest) w =
     (case process_file env video_file None w of
        Raise e w1 \<Rightarrow> Raise e w1
      | Return w1 \<Rightarrow> process_all env rest w1)"

fun main :: "env \<Rightarrow> path list \<Rightarrow> world \<Rightarrow> result" where
  "main env [] w = Return w"
| "main env (path # paths) w =
     (if \<not> path_exists (fs w) path
      then main env paths (print (''File not found ('' @ str_path path @ ''). Skipping...'') w)
      else if is_dir (fs w) path
      then (case process_all env (map (\<lambda>n. path @ [n]) (iterdir env path (fs w))) w of
              Raise e w1 \<Rightarrow> Raise e w1
            | Return w1 \<Rightarrow> main env paths w1)
      else if is_file (fs w) path
      then (case process_file env path None w of
              Raise e w1 \<Rightarrow> Raise e w1
            | Return w1 \<Rightarrow> main env paths w1)
      else main env paths (print (''Invalid file ('' @ str_path path @ ''). Skipping...'') w))"

text \<open>
  The parsed command line (lines 22-27) and the entry point: \<open>main(args.videofile)\<close>.
\<close>

record args =
  mkv :: bool
  mp4 :: bool
  config :: "path option"
  videofile :: "path list"

definition script :: "env \<Rightarrow> args \<Rightarrow> world \<Rightarrow> result" where
  "script env a w = main env (videofile a) w"

subsection \<open>Predicates used in the statements\<close>

text \<open>
  \<open>media_ext\<close> is the test of line 75: the suffix of the path, its dots removed, is one
  of the supported extensions.
\<close>

definition media_ext :: "path \<Rightarrow> bool" where
  "media_ext p = (filter (\<lambda>c. c \<noteq> CHR ''.'') (path_suffix p) \<in> set SUPPORTED_EXTENSIONS)"




subsection \<open>Concrete environments and worlds for the examples\<close>

text \<open>
  \<open>stub_env ts r names\<close> is an environment whose home directory is \<open>/home/u\<close>, whose
  probe answers \<open>ts\<close> for every file, whose encoding detection answers \<open>utf-8\<close>, whose
  ffmpeg runs all end as \<open>r\<close>, and whose directories all list \<open>names\<close>.
  \<open>stub_world files\<close> is a world with the given files and nothing printed or called yet.
\<close>

definition mk_track :: "string \<Rightarrow> string option \<Rightarrow> int option \<Rightarrow> track" where
  "mk_track ty fmt ch = \<lparr>track_type = ty, format = fmt, channel_s = ch, duration = ''60000''\<rparr>"

definition stub_env :: "track list \<Rightarrow> ffmpeg_result \<Rightarrow> string list \<Rightarrow> env" where
  "stub_env ts r names =
     \<lparr>home = [''home'', ''u''],
      mediainfo_parse = (\<lambda>p f. Inr ts),
      magic_from_file = (\<lambda>p f. ''utf-8''),
      ffmpeg_run = (\<lambda>c f. r),
      iterdir = (\<lambda>p f. names)\<rparr>"

definition stub_ledger :: path where
  "stub_ledger = [''home'', ''u'', ''.chromecastize'', ''processed_files'']"

definition stub_world :: "(path \<times> node) list \<Rightarrow> world" where
  "stub_world files = \<lparr>fs = map_of files, stdout = [], stderr = [], calls = []\<rparr>"

text \<open>The media conversions among a list of external calls.\<close>

definition media_runs :: "call list \<Rightarrow> ffmpeg_call list" where
  "media_runs cs =
     concat (map (\<lambda>c. case c of
                         Ffmpeg (Media_run src dst v a s) \<Rightarrow> [Media_run src dst v a s]
                       | _ \<Rightarrow> []) cs)"



section \<open>Paths and suffixes\<close>

lemma name_suffix_append:
  assumes "stem \<noteq> []" "e \<noteq> []" "CHR ''.'' \<notin> set e"
  shows "name_suffix (stem @ CHR ''.'' # e) = CHR ''.'' # e"
proof -
  have tw: "takeWhile (\<lambda>c. c \<noteq> CHR ''.'') (rev (stem @ CHR ''.'' # e)) = rev e"
    using assms(3) by (auto simp: takeWhile_tail)
  show ?thesis
    unfolding name_suffix_def tw using assms by (simp add: Let_def)
qed

lemma name_suffix_shape:
  assumes "name_suffix nm \<noteq> []"
  shows "\<exists>stem e. nm = stem @ CHR ''.'' # e \<and> stem \<noteq> [] \<and> e \<noteq> [] \<and> CHR ''.'' \<notin> set e
           \<and> name_suffix nm = CHR ''.'' # e"
proof -
  define r where "r = takeWhile (\<lambda>c. c \<noteq> CHR ''.'') (rev nm)"
  define rest where "rest = dropWhile (\<lambda>c. c \<noteq> CHR ''.'') (rev nm)"
  from assms have dot: "CHR ''.'' \<in> set nm"
    by (auto simp: name_suffix_def split: if_splits)
  have split: "rev nm = r @ rest" by (simp add: r_def rest_def)
  have "rest \<noteq> []" using dot by (auto simp: rest_def dropWhile_eq_Nil_conv)
  moreover have "hd rest = CHR ''.''"
    using hd_dropWhile [of "\<lambda>c. c \<noteq> CHR ''.''" "rev nm"] \<open>rest \<noteq> []\<close> by (simp add: rest_def)
  ultimately obtain t where rest: "rest = CHR ''.'' # t" by (cases rest) auto
  have nm: "nm = rev t @ CHR ''.'' # rev r"
    using split rest by (metis rev_append rev_rev_ident rev.simps(2) append.assoc append_Cons append_Nil)
  have nodot: "CHR ''.'' \<notin> set (rev r)"
    using set_takeWhileD [of "CHR ''.''" "\<lambda>c. c \<noteq> CHR ''.''" "rev nm"] by (auto simp: r_def)
  have len: "length nm - length r - 1 = length t" using nm by simp
  from assms have "0 < length t \<and> length t < length nm - 1"
    unfolding name_suffix_def Let_def r_def [symmetric] len using dot by (simp split: if_splits)
  hence "rev t \<noteq> []" "rev r \<noteq> []" using nm by auto
  with nm nodot name_suffix_append [of "rev t" "rev r"] show ?thesis by metis
qed

lemma empty_not_supported: "[] \<notin> set SUPPORTED_EXTENSIONS"
  by (simp add: SUPPORTED_EXTENSIONS_def)

lemma media_ext_shape:
  assumes "media_ext p"
  shows "\<exists>stem e. path_name p = stem @ CHR ''.'' # e \<and> stem \<noteq> [] \<and> e \<in> set SUPPORTED_EXTENSIONS
           \<and> CHR ''.'' \<notin> set e \<and> path_suffix p = CHR ''.'' # e"
proof -
  from assms have "path_suffix p \<noteq> []"
    using empty_not_supported by (auto simp: media_ext_def)
  then obtain stem e where s: "path_name p = stem @ CHR ''.'' # e" "stem \<noteq> []" "e \<noteq> []"
      "CHR ''.'' \<notin> set e" "path_suffix p = CHR ''.'' # e"
    using name_suffix_shape [of "path_name p"] by (auto simp: path_suffix_def)
  have "filter (\<lambda>c. c \<noteq> CHR ''.'') (CHR ''.'' # e) = e"
    using s(4) by (auto simp: filter_id_conv)
  with assms s show ?thesis by (auto simp: media_ext_def)
qed

lemma supported_no_slash: "e \<in> set SUPPORTED_EXTENSIONS \<Longrightarrow> CHR ''/'' \<notin> set e \<and> e \<noteq> []"
  by (auto simp: SUPPORTED_EXTENSIONS_def)

lemma path_name_snoc [simp]: "path_name (q @ [n]) = n"
  by (simp add: path_name_def)

lemma path_suffix_snoc [simp]: "path_suffix (q @ [n]) = name_suffix n"
  by (simp add: path_suffix_def)

lemma with_suffix_stem:
  assumes "path_name p = stem @ CHR ''.'' # e" "path_suffix p = CHR ''.'' # e"
      and "CHR ''/'' \<notin> set s" "s \<noteq> []"
  shows "with_suffix p (CHR ''.'' # s) = Inr (butlast p @ [stem @ CHR ''.'' # s])"
  using assms by (simp add: with_suffix_def)

lemma ledger_suffix [simp]: "path_suffix (ledger_path env) = []"
  by (simp add: ledger_path_def path_suffix_def path_name_def name_suffix_def)

lemma media_ext_not_ledger: "media_ext q \<Longrightarrow> q \<noteq> ledger_path env"
  using empty_not_supported by (auto simp: media_ext_def)


section \<open>File-system effects of the helpers\<close>





lemma bak_suffix: "nm \<noteq> [] \<Longrightarrow> name_suffix (nm @ ''.bak'') = ''.bak''"
  using name_suffix_append [of nm "''bak''"] by simp


section \<open>The audio decision\<close>

text \<open>
  Claim C7. For every audio codec identifier and every channel count, the audio stream is
  judged compatible, that is, \<open>is_supported_acodec\<close> answers true and the audio action
  of line 109 is \<open>copy\<close>, exactly when the codec is in the supported audio set and it is
  not AAC with more than two channels. In particular AAC is compatible exactly when it
  has at most two channels.
\<close>

theorem is_supported_acodec_iff:
  "is_supported_acodec (Some codec) (Some channels)
     = Inr (codec \<in> set SUPPORTED_ACODECS \<and> \<not> (codec = ''AAC'' \<and> channels > 2))
   \<and> (output_acodec_of (Some codec) (Some channels) = Inr ''copy'')
       = (codec \<in> set SUPPORTED_ACODECS \<and> \<not> (codec = ''AAC'' \<and> channels > 2))
   \<and> is_supported_acodec (Some ''AAC'') (Some channels) = Inr (channels \<le> 2)"
proof -
  have a: "is_supported_acodec (Some codec) (Some channels)
     = Inr (codec \<in> set SUPPORTED_ACODECS \<and> \<not> (codec = ''AAC'' \<and> channels > 2))"
    by (auto simp: is_supported_acodec_def py_gt_def in_list_def)
  have b: "is_supported_acodec (Some ''AAC'') (Some channels) = Inr (channels \<le> 2)"
    by (auto simp: is_supported_acodec_def py_gt_def in_list_def SUPPORTED_ACODECS_def)
  have c: "(output_acodec_of (Some codec) (Some channels) = Inr ''copy'')
       = (codec \<in> set SUPPORTED_ACODECS \<and> \<not> (codec = ''AAC'' \<and> channels > 2))"
    unfolding output_acodec_of_def a by (simp add: DEFAULT_ACODEC_def)
  from a b c show ?thesis by blast
qed

section \<open>The conversion and the decision never raise in a well-formed environment\<close>












section \<open>Evaluating the script on concrete inputs\<close>

text \<open>The defining equations that unfold a run of the script on a concrete world.\<close>

lemmas eval_defs =
  stub_env_def stub_world_def stub_ledger_def mk_track_def
  script_def process_file_def process_tracks_def convert_def on_success_def on_failure_def
  process_subtitle_file_def mark_as_good_def Let_def print_def print_err_def
  path_suffix_def path_name_def name_suffix_def with_suffix_def str_path_def
  path_exists_def is_dir_def is_file_def open_read_def open_append_def unlink_def replace_def
  ffmpeg_effect_def first_track_def truthy_def output_gformat_of_def output_vcodec_of_def
  output_acodec_of_def is_supported_acodec_def py_gt_def in_list_def ledger_path_def
  world_of_def raised_def decode_def trail_def byte_in_def
  SUPPORTED_EXTENSIONS_def SUPPORTED_SUBTITLE_EXTENSIONS_def SUPPORTED_GFORMATS_def
  SUPPORTED_VCODECS_def SUPPORTED_ACODECS_def DEFAULT_VCODEC_def DEFAULT_ACODEC_def
  DEFAULT_GFORMAT_def

section \<open>The batch runner and exceptions\<close>


text \<open>
  A second way out of \<open>main\<close> is the \<open>except\<close> clause itself: when the
  \<open>stderr\<close> of the \<open>ffmpeg.Error\<close> is not UTF-8, \<open>e.stderr.decode()\<close> raises
  \<open>UnicodeDecodeError\<close> before \<open>on_failure\<close> is called, and the partial output stays.
\<close>

lemma undecodable_stderr_raises_out_of_main:
  "raised (main (stub_env [mk_track ''General'' (Some ''AVI'') None,
                           mk_track ''Video'' (Some ''MPEG-4 Visual'') None,
                           mk_track ''Audio'' (Some ''AC-3'') (Some 6)]
                   (Failed (Some [CHR 0xFF]) (Some ''partial'')) [])
             [[''v'', ''a.avi'']]
             (stub_world [(stub_ledger, File []), ([''v'', ''a.avi''], File ''data'')]))
     = Some UnicodeDecodeError
   \<and> fs (world_of (main (stub_env [mk_track ''General'' (Some ''AVI'') None,
                           mk_track ''Video'' (Some ''MPEG-4 Visual'') None,
                           mk_track ''Audio'' (Some ''AC-3'') (Some 6)]
                   (Failed (Some [CHR 0xFF]) (Some ''partial'')) [])
             [[''v'', ''a.avi'']]
             (stub_world [(stub_ledger, File []), ([''v'', ''a.avi''], File ''data'')])))
       [''v'', ''a.mp4''] = Some (File ''partial'')"
  by (simp add: eval_defs)



section \<open>The command-line flags\<close>

text \<open>
  Claim C1 says that the container override chosen with \<open>--mkv\<close> or \<open>--mp4\<close> reaches
  the decision of every processed file. The script parses the two flags and
  \<open>process_file\<close> has the parameter, but the entry point calls \<open>main(args.videofile)\<close>
  and \<open>main\<close> calls \<open>process_file\<close> with the path alone. So the run does not depend on
  the flags; with \<open>--mkv\<close> a compliant \<open>/v/a.mp4\<close> is only probed and marked, where
  \<open>process_file\<close> with the override \<open>mkv\<close> would convert it to \<open>/v/a.mkv\<close>.
\<close>

theorem container_flags_never_reach_process_file:
  "script env (a\<lparr>mkv := m, mp4 := n\<rparr>) w = script env a w
   \<and> calls (world_of (script
         (stub_env [mk_track ''General'' (Some ''MPEG-4'') None,
                    mk_track ''Video'' (Some ''AVC'') None,
                    mk_track ''Audio'' (Some ''AAC'') (Some 2)] (Succeeded ''converted'') [])
         \<lparr>mkv = True, mp4 = False, config = None, videofile = [[''v'', ''a.mp4'']]\<rparr>
         (stub_world [(stub_ledger, File []), ([''v'', ''a.mp4''], File ''data'')])))
       = [Probe [''v'', ''a.mp4'']]
   \<and> calls (world_of (process_file
         (stub_env [mk_track ''General'' (Some ''MPEG-4'') None,
                    mk_track ''Video'' (Some ''AVC'') None,
                    mk_track ''Audio'' (Some ''AAC'') (Some 2)] (Succeeded ''converted'') [])
         [''v'', ''a.mp4''] (Some ''mkv'')
         (stub_world [(stub_ledger, File []), ([''v'', ''a.mp4''], File ''data'')])))
       = [Probe [''v'', ''a.mp4''],
          Ffmpeg (Media_run [''v'', ''a.mp4''] [''v'', ''a.mkv''] ''copy'' ''copy'' ''copy'')]"
proof -
  have a: "script env (a\<lparr>mkv := m, mp4 := n\<rparr>) w = script env a w"
    by (simp add: script_def)
  show ?thesis unfolding a by (simp add: eval_defs)
qed

section \<open>The destination path\<close>

text \<open>
  Claim C3 says that the destination is the source with its extension replaced by the
  chosen container and never the source itself. For \<open>/v/a.mp4\<close> whose probed
  container is not supported (AVI) the chosen container is the default \<open>mp4\<close>, and
  the conversion is run from \<open>/v/a.mp4\<close> to \<open>/v/a.mp4\<close>. When the container is
  unchanged, line 116 takes \<open>video_file.suffix\<close>, which has its dot, and line 119 adds
  a dot: \<open>/v/a.mkv\<close> is converted to \<open>/v/a..mkv\<close>.
\<close>

theorem destination_equals_source_for_mp4_with_unsupported_container:
  "calls (world_of (process_file
         (stub_env [mk_track ''General'' (Some ''AVI'') None,
                    mk_track ''Video'' (Some ''AVC'') None,
                    mk_track ''Audio'' (Some ''AAC'') (Some 2)]
            (Failed (Some ''FFmpeg cannot edit existing files in-place.'') None) [])
         [''v'', ''a.mp4''] None
         (stub_world [(stub_ledger, File []), ([''v'', ''a.mp4''], File ''data'')])))
     = [Probe [''v'', ''a.mp4''],
        Ffmpeg (Media_run [''v'', ''a.mp4''] [''v'', ''a.mp4''] ''copy'' ''copy'' ''copy'')]
   \<and> calls (world_of (process_file
         (stub_env [mk_track ''General'' (Some ''Matroska'') None,
                    mk_track ''Video'' (Some ''HEVC'') None,
                    mk_track ''Audio'' (Some ''AAC'') (Some 2)] (Succeeded ''converted'') [])
         [''v'', ''a.mkv''] None
         (stub_world [(stub_ledger, File []), ([''v'', ''a.mkv''], File ''data'')])))
     = [Probe [''v'', ''a.mkv''],
        Ffmpeg (Media_run [''v'', ''a.mkv''] [''v'', ''a..mkv''] ''h264'' ''copy'' ''copy'')]"
  by (simp add: eval_defs)

section \<open>A failed conversion\<close>

text \<open>
  Claim C4 says that after a failed conversion the source is unchanged. In the case of
  the previous section the destination is the source: ffmpeg refuses to run,
  \<open>on_failure\<close> finds that the destination exists and unlinks it, and the source
  \<open>/v/a.mp4\<close> is gone although \<open>process_file\<close> returns normally.
\<close>

theorem failed_conversion_onto_source_deletes_source:
  "fs (stub_world [(stub_ledger, File []), ([''v'', ''a.mp4''], File ''data'')]) [''v'', ''a.mp4'']
     = Some (File ''data'')
   \<and> raised (process_file
         (stub_env [mk_track ''General'' (Some ''AVI'') None,
                    mk_track ''Video'' (Some ''AVC'') None,
                    mk_track ''Audio'' (Some ''AAC'') (Some 2)]
            (Failed (Some ''FFmpeg cannot edit existing files in-place.'') None) [])
         [''v'', ''a.mp4''] None
         (stub_world [(stub_ledger, File []), ([''v'', ''a.mp4''], File ''data'')])) = None
   \<and> fs (world_of (process_file
         (stub_env [mk_track ''General'' (Some ''AVI'') None,
                    mk_track ''Video'' (Some ''AVC'') None,
                    mk_track ''Audio'' (Some ''AAC'') (Some 2)]
            (Failed (Some ''FFmpeg cannot edit existing files in-place.'') None) [])
         [''v'', ''a.mp4''] None
         (stub_world [(stub_ledger, File []), ([''v'', ''a.mp4''], File ''data'')]))) [''v'', ''a.mp4'']
     = None"
  by (simp add: eval_defs)

section \<open>The override and the extension\<close>

text \<open>
  Line 95 compares the override with \<open>extension\<close>, which is \<open>video_file.suffix\<close> and
  so begins with a dot when the file has a media extension. An override that is that
  very string gives \<open>ok\<close>; an override without a leading dot, as the container names
  of lines 20 and 99 are, is never equal to it.
\<close>

lemma override_equal_suffix_is_ok:
  "output_gformat_of general_format (Some extension) extension = ''ok''"
  by (simp add: output_gformat_of_def)

lemma dotless_override_never_equals_suffix:
  assumes "media_ext p" and "s = [] \<or> hd s \<noteq> CHR ''.''"
  shows "Some s \<noteq> Some (path_suffix p)"
  using media_ext_shape [OF assms(1)] assms(2) by auto

text \<open>
  Claim C6 says that an override that matches the file's current extension gives the
  container decision "unchanged". For \<open>/v/a.mp4\<close>, probed as MPEG-4, AVC and stereo
  AAC, and the override \<open>mp4\<close>, the decision is not \<open>ok\<close> but \<open>mp4\<close>: the suffix is
  \<open>.mp4\<close>, with its dot, and the comparison of line 95 fails. The file, compliant as it
  is, is converted, from \<open>/v/a.mp4\<close> to \<open>/v/a.mp4\<close>; ffmpeg refuses to write onto its
  input, and \<open>on_failure\<close> deletes the file.
\<close>

theorem container_override_never_matches_dotted_suffix:
  "path_suffix [''v'', ''a.mp4''] = ''.mp4''
   \<and> output_gformat_of ''MPEG-4'' (Some ''mp4'') (path_suffix [''v'', ''a.mp4'']) = ''mp4''
   \<and> calls (world_of (process_file
         (stub_env [mk_track ''General'' (Some ''MPEG-4'') None,
                    mk_track ''Video'' (Some ''AVC'') None,
                    mk_track ''Audio'' (Some ''AAC'') (Some 2)]
            (Failed (Some ''FFmpeg cannot edit existing files in-place.'') None) [])
         [''v'', ''a.mp4''] (Some ''mp4'')
         (stub_world [(stub_ledger, File []), ([''v'', ''a.mp4''], File ''data'')])))
     = [Probe [''v'', ''a.mp4''],
        Ffmpeg (Media_run [''v'', ''a.mp4''] [''v'', ''a.mp4''] ''copy'' ''copy'' ''copy'')]
   \<and> fs (world_of (process_file
         (stub_env [mk_track ''General'' (Some ''MPEG-4'') None,
                    mk_track ''Video'' (Some ''AVC'') None,
                    mk_track ''Audio'' (Some ''AAC'') (Some 2)]
            (Failed (Some ''FFmpeg cannot edit existing files in-place.'') None) [])
         [''v'', ''a.mp4''] (Some ''mp4'')
         (stub_world [(stub_ledger, File []), ([''v'', ''a.mp4''], File ''data'')])))
       [''v'', ''a.mp4''] = None"
  by (simp add: eval_defs)

section \<open>An absent ledger\<close>

text \<open>
  Claim C5 says that the first ledger operation creates an absent ledger. The first
  operation of \<open>process_file\<close> on the ledger is \<open>processed_files.open()\<close>, for
  reading: with the directory \<open>~/.chromecastize\<close> present and the file absent it raises
  \<open>FileNotFoundError\<close> and the ledger is still absent. \<open>mark_as_good\<close>, which opens
  the ledger for appending, does create it in the same world.
\<close>

theorem absent_ledger_raises_on_first_use:
  "raised (process_file
         (stub_env [mk_track ''General'' (Some ''MPEG-4'') None,
                    mk_track ''Video'' (Some ''AVC'') None,
                    mk_track ''Audio'' (Some ''AAC'') (Some 2)] (Succeeded ''converted'') [])
         [''v'', ''a.mp4''] None
         (stub_world [([''home'', ''u'', ''.chromecastize''], Dir), ([''v'', ''a.mp4''], File ''data'')]))
     = Some FileNotFoundError
   \<and> fs (world_of (process_file
         (stub_env [mk_track ''General'' (Some ''MPEG-4'') None,
                    mk_track ''Video'' (Some ''AVC'') None,
                    mk_track ''Audio'' (Some ''AAC'') (Some 2)] (Succeeded ''converted'') [])
         [''v'', ''a.mp4''] None
         (stub_world [([''home'', ''u'', ''.chromecastize''], Dir), ([''v'', ''a.mp4''], File ''data'')])))
       stub_ledger = None
   \<and> fs (world_of (mark_as_good [''v'', ''a.mp4''] stub_ledger
         (stub_world [([''home'', ''u'', ''.chromecastize''], Dir), ([''v'', ''a.mp4''], File ''data'')])))
       stub_ledger = Some (File (''/v/a.mp4'' @ [CHR 0x0A]))"
  by (simp add: eval_defs)

section \<open>Probes without a Video or an Audio track\<close>

text \<open>The part of process_file after the ledger scan, when the probe answers.\<close>

lemma process_file_probed:
  assumes me: "media_ext p"
      and sub: "process_subtitle_file env p
                  (print (''Processing: '' @ str_path p) (print ''==========='' w)) = Return w2"
      and rd: "open_read (fs w2) (ledger_path env) = Inr ls"
      and miss: "str_path p @ [CHR 0x0A] \<notin> set ls"
      and pr: "mediainfo_parse env p (fs w2) = Inr ts"
  shows "process_file env p ov w =
           process_tracks env p ov (path_suffix p) (ledger_path env) ts
             (w2\<lparr>calls := calls w2 @ [Probe p]\<rparr>)"
  unfolding process_file_def Let_def
  using me sub rd miss pr by (simp add: media_ext_def)

lemma no_track: "\<forall>t\<in>set ts. track_type t \<noteq> ty \<Longrightarrow> first_track ty ts = Inl StopIteration"
  by (simp add: first_track_def filter_empty_conv)

text \<open>
  Claim C10. For a file with a supported extension that reaches the probe (the subtitle
  pass returned, the ledger was read and does not hold the path, the probe answered with
  a General track): when the General format is readable and no track is a Video track,
  or a Video track with a format is there and no track is an Audio track,
  \<open>process_file\<close> raises \<open>StopIteration\<close> instead of skipping; the one handled case
  is the General format that is empty or \<open>None\<close>, which is reported and skipped.
\<close>

theorem missing_video_or_audio_track_raises:
  assumes me: "media_ext p"
      and sub: "process_subtitle_file env p
                  (print (''Processing: '' @ str_path p) (print ''==========='' w)) = Return w2"
      and rd: "open_read (fs w2) (ledger_path env) = Inr ls"
      and miss: "str_path p @ [CHR 0x0A] \<notin> set ls"
      and pr: "mediainfo_parse env p (fs w2) = Inr ts"
      and g: "first_track ''General'' ts = Inr g"
  shows "(truthy (format g) \<and> (\<forall>t\<in>set ts. track_type t \<noteq> ''Video'')
            \<longrightarrow> raised (process_file env p ov w) = Some StopIteration)
       \<and> (truthy (format g) \<and> first_track ''Video'' ts = Inr v \<and> format v \<noteq> None
            \<and> (\<forall>t\<in>set ts. track_type t \<noteq> ''Audio'')
            \<longrightarrow> raised (process_file env p ov w) = Some StopIteration)
       \<and> (\<not> truthy (format g)
            \<longrightarrow> process_file env p ov w =
                  Return (print ''- error reading track info, skipping ''
                            (w2\<lparr>calls := calls w2 @ [Probe p]\<rparr>)))"
proof -
  note pf = process_file_probed [OF me sub rd miss pr, of ov]
  have a: "raised (process_file env p ov w) = Some StopIteration"
    if "truthy (format g)" "\<forall>t\<in>set ts. track_type t \<noteq> ''Video''"
    using that g no_track [of ts "''Video''"]
    by (simp add: pf process_tracks_def Let_def raised_def)
  have b: "raised (process_file env p ov w) = Some StopIteration"
    if "truthy (format g)" "first_track ''Video'' ts = Inr v" "format v \<noteq> None"
       "\<forall>t\<in>set ts. track_type t \<noteq> ''Audio''"
    using that g no_track [of ts "''Audio''"]
    by (auto simp: pf process_tracks_def Let_def raised_def)
  have c: "process_file env p ov w =
       Return (print ''- error reading track info, skipping '' (w2\<lparr>calls := calls w2 @ [Probe p]\<rparr>))"
    if "\<not> truthy (format g)"
    using that g by (simp add: pf process_tracks_def)
  from a b c show ?thesis by blast
qed

text \<open>
  The three cases on \<open>/v/a.mkv\<close>: a probe with General and Audio only, one with General
  and Video only, and one whose General track has no format.
\<close>

theorem missing_video_or_audio_track_raises_witness:
  "media_ext [''v'', ''a.mkv'']
   \<and> raised (process_file
         (stub_env [mk_track ''General'' (Some ''Matroska'') None,
                    mk_track ''Audio'' (Some ''AAC'') (Some 2)] (Succeeded ''converted'') [])
         [''v'', ''a.mkv''] None
         (stub_world [(stub_ledger, File []), ([''v'', ''a.mkv''], File ''data'')]))
       = Some StopIteration
   \<and> raised (process_file
         (stub_env [mk_track ''General'' (Some ''Matroska'') None,
                    mk_track ''Video'' (Some ''AVC'') None] (Succeeded ''converted'') [])
         [''v'', ''a.mkv''] None
         (stub_world [(stub_ledger, File []), ([''v'', ''a.mkv''], File ''data'')]))
       = Some StopIteration
   \<and> process_file
         (stub_env [mk_track ''General'' None None,
                    mk_track ''Video'' (Some ''AVC'') None] (Succeeded ''converted'') [])
         [''v'', ''a.mkv''] None
         (stub_world [(stub_ledger, File []), ([''v'', ''a.mkv''], File ''data'')])
       = Return (print ''- error reading track info, skipping ''
           ((print ''Processing: /v/a.mkv''
              (print ''==========='' (stub_world [(stub_ledger, File []), ([''v'', ''a.mkv''], File ''data'')])))
            \<lparr>calls := [Probe [''v'', ''a.mkv'']]\<rparr>))"
proof -
  let ?p = "[''v'', ''a.mkv'']"
  let ?W = "stub_world [(stub_ledger, File []), ([''v'', ''a.mkv''], File ''data'')]"
  let ?w2 = "print (''Processing: '' @ str_path ?p) (print ''==========='' ?W)"
  let ?g = "mk_track ''General'' (Some ''Matroska'') None"
  let ?gnone = "mk_track ''General'' None None"
  let ?v = "mk_track ''Video'' (Some ''AVC'') None"
  let ?a = "mk_track ''Audio'' (Some ''AAC'') (Some 2)"
  let ?E1 = "stub_env [?g, ?a] (Succeeded ''converted'') []"
  let ?E2 = "stub_env [?g, ?v] (Succeeded ''converted'') []"
  let ?E3 = "stub_env [?gnone, ?v] (Succeeded ''converted'') []"
  have me: "media_ext ?p" by (simp add: media_ext_def eval_defs)
  have sub: "process_subtitle_file (stub_env ts r ns) ?p ?w2 = Return ?w2" for ts r ns
    by (simp add: eval_defs)
  have rd: "open_read (fs ?w2) (ledger_path (stub_env ts r ns)) = Inr []" for ts r ns
    by (simp add: eval_defs)
  have miss: "str_path ?p @ [CHR 0x0A] \<notin> set []" by simp
  have pr: "mediainfo_parse (stub_env ts r ns) ?p (fs ?w2) = Inr ts" for ts r ns
    by (simp add: stub_env_def)
  have g1: "first_track ''General'' [?g, ?a] = Inr ?g" by (simp add: eval_defs)
  have g2: "first_track ''General'' [?g, ?v] = Inr ?g" by (simp add: eval_defs)
  have g3: "first_track ''General'' [?gnone, ?v] = Inr ?gnone" by (simp add: eval_defs)
  have c1: "raised (process_file ?E1 ?p None ?W) = Some StopIteration"
    using missing_video_or_audio_track_raises [OF me sub rd miss pr g1, where v = "?v" and ov = None]
    by (simp add: truthy_def mk_track_def)
  have c2: "raised (process_file ?E2 ?p None ?W) = Some StopIteration"
    using missing_video_or_audio_track_raises [OF me sub rd miss pr g2, where v = "?v" and ov = None]
    by (simp add: truthy_def mk_track_def first_track_def)
  have c3: "process_file ?E3 ?p None ?W =
      Return (print ''- error reading track info, skipping '' (?w2\<lparr>calls := calls ?w2 @ [Probe ?p]\<rparr>))"
    using missing_video_or_audio_track_raises [OF me sub rd miss pr g3, where v = "?v" and ov = None]
    by (simp add: truthy_def mk_track_def)
  have w2: "?w2\<lparr>calls := calls ?w2 @ [Probe ?p]\<rparr>
      = (print ''Processing: /v/a.mkv'' (print ''==========='' ?W))\<lparr>calls := [Probe ?p]\<rparr>"
    by (simp add: print_def stub_world_def str_path_def)
  from me c1 c2 c3 show ?thesis unfolding w2 by simp
qed

section \<open>The compliant branch and the conversion branch\<close>

lemma calls_mark_as_good [simp]: "calls (world_of (mark_as_good q l w)) = calls w"
  by (simp add: mark_as_good_def world_of_def split: sum.splits)

lemma calls_on_success [simp]: "calls (world_of (on_success p q l w)) = calls w"
  by (simp add: on_success_def mark_as_good_def world_of_def Let_def print_def split: sum.splits)

lemma calls_on_failure [simp]: "calls (world_of (on_failure p q w)) = calls w"
  by (simp add: on_failure_def world_of_def Let_def print_def split: sum.splits)

lemma media_runs_append [simp]: "media_runs (xs @ ys) = media_runs xs @ media_runs ys"
  by (simp add: media_runs_def)

lemma media_runs_simps [simp]:
  "media_runs [] = []"
  "media_runs (Probe q # cs) = media_runs cs"
  "media_runs (Detect q # cs) = media_runs cs"
  "media_runs (Ffmpeg (Media_run src dst v a s) # cs) = Media_run src dst v a s # media_runs cs"
  "media_runs (Ffmpeg (Subtitle_run src enc dst) # cs) = media_runs cs"
  by (simp_all add: media_runs_def)





section \<open>Lines of the ledger\<close>





section \<open>The ledger and a second run\<close>

lemma fs_print [simp]: "fs (print s w) = fs w" "fs (print_err s w) = fs w"
  by (simp_all add: print_def print_err_def)

lemma calls_print [simp]: "calls (print s w) = calls w" "calls (print_err s w) = calls w"
  by (simp_all add: print_def print_err_def)








section \<open>What a failed and a successful conversion leave behind\<close>

text \<open>
  A failed conversion whose destination is not the source. For a file with a supported
  extension, when ffmpeg raises an error whose \<open>stderr\<close> is well-formed UTF-8 and the
  destination is neither the source nor a directory, \<open>convert\<close> returns, and the file
  system afterwards is the one before with the destination removed: a partial output is
  deleted, the source is as it was, and so is the ledger.
\<close>

theorem failed_conversion_leaves_source_and_ledger:
  assumes me: "media_ext p"
      and ws: "with_suffix p (''.'' @ (if g = ''ok'' then path_suffix p else g)) = Inr dest"
      and fail: "ffmpeg_run env (Media_run p dest v a ''copy'') (fs w) = Failed (Some msg) part"
      and utf: "utf8_valid msg"
      and nd: "fs w dest \<noteq> Some Dir"
      and ne: "dest \<noteq> p"
  shows "raised (convert env p (path_suffix p) (ledger_path env) d g v a w) = None
       \<and> fs (world_of (convert env p (path_suffix p) (ledger_path env) d g v a w))
           = (fs w)(dest := None)
       \<and> fs (world_of (convert env p (path_suffix p) (ledger_path env) d g v a w)) p = fs w p
       \<and> fs (world_of (convert env p (path_suffix p) (ledger_path env) d g v a w)) (ledger_path env)
           = fs w (ledger_path env)"
proof -
  let ?R = "convert env p (path_suffix p) (ledger_path env) d g v a w"
  from media_ext_shape [OF me] obtain stem e where
    s: "path_name p = stem @ CHR ''.'' # e" "stem \<noteq> []" "path_suffix p = CHR ''.'' # e" by blast
  from ws have "CHR ''.'' \<in> set (path_name dest)"
    by (auto simp: with_suffix_def split: if_splits)
  moreover have "CHR ''.'' \<notin> set (path_name (ledger_path env))"
    by (simp add: ledger_path_def path_name_def)
  ultimately have dl: "dest \<noteq> ledger_path env" by auto
  define w2 where "w2 = print_err msg ((print (''- video length: '' @ d) w)
      \<lparr>fs := ffmpeg_effect dest (Failed (Some msg) part) (fs w),
        calls := calls w @ [Ffmpeg (Media_run p dest v a ''copy'')]\<rparr>)"
  have R: "?R = on_failure p dest w2"
    unfolding convert_def Let_def w2_def using ws fail utf by (simp add: print_def decode_def)
  have f2: "fs w2 = (case part of None \<Rightarrow> fs w | Some x \<Rightarrow> (fs w)(dest \<mapsto> File x))"
    by (simp add: w2_def print_err_def ffmpeg_effect_def split: option.splits)
  have "raised (on_failure p dest w2) = None
        \<and> fs (world_of (on_failure p dest w2)) = (fs w)(dest := None)"
  proof (cases part)
    case None
    show ?thesis
    proof (cases "fs w dest")
      case n: None
      hence "(fs w)(dest := None) = fs w" by (simp add: fun_upd_idem)
      thus ?thesis using None n f2
        by (simp add: on_failure_def Let_def path_exists_def raised_def world_of_def)
    next
      case (Some n)
      with nd have "n \<noteq> Dir" by auto
      thus ?thesis using None Some f2
        by (cases n) (simp_all add: on_failure_def Let_def path_exists_def unlink_def raised_def world_of_def)
    qed
  next
    case (Some x)
    thus ?thesis using f2
      by (simp add: on_failure_def Let_def path_exists_def unlink_def raised_def world_of_def)
  qed
  thus ?thesis using ne dl by (simp add: R)
qed

theorem failed_conversion_leaves_source_and_ledger_witness:
  "media_ext [''v'', ''a.avi'']
   \<and> raised (convert (stub_env [] (Failed (Some ''Conversion failed!'') (Some ''partial'')) [])
        [''v'', ''a.avi''] ''.avi'' stub_ledger ''60000'' ''mp4'' ''h264'' ''libvorbis''
        (stub_world [(stub_ledger, File []), ([''v'', ''a.avi''], File ''data'')])) = None
   \<and> fs (world_of (convert (stub_env [] (Failed (Some ''Conversion failed!'') (Some ''partial'')) [])
        [''v'', ''a.avi''] ''.avi'' stub_ledger ''60000'' ''mp4'' ''h264'' ''libvorbis''
        (stub_world [(stub_ledger, File []), ([''v'', ''a.avi''], File ''data'')])))
      = (map_of [(stub_ledger, File []), ([''v'', ''a.avi''], File ''data'')])([''v'', ''a.mp4''] := None)"
proof -
  let ?E = "stub_env [] (Failed (Some ''Conversion failed!'') (Some ''partial'')) []"
  let ?p = "[''v'', ''a.avi'']"
  let ?W = "stub_world [(stub_ledger, File []), ([''v'', ''a.avi''], File ''data'')]"
  have me: "media_ext ?p" by (simp add: media_ext_def eval_defs)
  have ws: "with_suffix ?p (''.'' @ (if ''mp4'' = ''ok'' then path_suffix ?p else ''mp4''))
      = Inr [''v'', ''a.mp4'']" by (simp add: eval_defs)
  have fail: "ffmpeg_run ?E (Media_run ?p [''v'', ''a.mp4''] ''h264'' ''libvorbis'' ''copy'') (fs ?W)
      = Failed (Some ''Conversion failed!'') (Some ''partial'')" by (simp add: stub_env_def)
  have nd: "fs ?W [''v'', ''a.mp4''] \<noteq> Some Dir" by (simp add: stub_world_def stub_ledger_def)
  have ne: "[''v'', ''a.mp4''] \<noteq> ?p" by simp
  have ps: "path_suffix ?p = ''.avi''" "ledger_path ?E = stub_ledger"
     "fs ?W = map_of [(stub_ledger, File []), ([''v'', ''a.avi''], File ''data'')]"
    by (simp_all add: eval_defs)
  have utf: "utf8_valid ''Conversion failed!''" by (simp add: trail_def byte_in_def)
  from failed_conversion_leaves_source_and_ledger [OF me ws fail utf nd ne, of "''60000''"] me
  show ?thesis unfolding ps by simp
qed

text \<open>
  A successful conversion. For a source with a supported extension that exists and is
  not a directory, a ledger that is a regular file, and no directory at the backup path,
  \<open>on_success\<close> returns; afterwards nothing is at the source path, the source's node is
  at the path with \<open>.bak\<close> added to its name, and the ledger has gained the line of the
  destination.
\<close>

theorem on_success_moves_source_and_records_destination:
  assumes me: "media_ext p"
      and ex: "fs w p = Some n" "n \<noteq> Dir"
      and led: "fs w (ledger_path env) = Some (File c)"
      and bd: "fs w (butlast p @ [path_name p @ ''.bak'']) \<noteq> Some Dir"
  shows "raised (on_success p q (ledger_path env) w) = None
       \<and> fs (world_of (on_success p q (ledger_path env) w)) p = None
       \<and> fs (world_of (on_success p q (ledger_path env) w)) (butlast p @ [path_name p @ ''.bak''])
           = Some n
       \<and> fs (world_of (on_success p q (ledger_path env) w)) (ledger_path env)
           = Some (File (c @ str_path q @ [CHR 0x0A]))"
proof -
  from media_ext_shape [OF me] obtain stem e where
    s: "path_name p = stem @ CHR ''.'' # e" "stem \<noteq> []" "e \<in> set SUPPORTED_EXTENSIONS"
       "path_suffix p = CHR ''.'' # e" by blast
  define backup where "backup = butlast p @ [path_name p @ ''.bak'']"
  have ws: "with_suffix p (path_suffix p @ ''.bak'') = Inr backup"
    using with_suffix_stem [OF s(1) s(4), of "e @ ''.bak''"] supported_no_slash [OF s(3)]
    by (simp add: s(1,4) backup_def)
  have "path_suffix backup = ''.bak''"
    using bak_suffix [of "path_name p"] s(1) by (simp add: backup_def)
  hence bl: "backup \<noteq> ledger_path env" by auto
  have pl: "p \<noteq> ledger_path env" by (rule media_ext_not_ledger [OF me])
  have pb: "p \<noteq> backup"
  proof
    assume "p = backup"
    hence "path_name p = path_name backup" by simp
    thus False by (simp add: backup_def)
  qed
  have rp: "replace (fs w) p backup = Inr (((fs w)(p := None))(backup \<mapsto> n))"
    using ex bd by (simp add: replace_def backup_def)
  show ?thesis
    unfolding on_success_def Let_def backup_def [symmetric]
    using ws rp led pl bl pb
    by (simp add: mark_as_good_def open_append_def raised_def world_of_def)
qed

theorem on_success_moves_source_and_records_destination_witness:
  "media_ext [''v'', ''a.avi'']
   \<and> fs (world_of (on_success [''v'', ''a.avi''] [''v'', ''a.mp4''] stub_ledger
        (stub_world [(stub_ledger, File []), ([''v'', ''a.avi''], File ''data''),
                     ([''v'', ''a.mp4''], File ''converted'')]))) [''v'', ''a.avi''] = None
   \<and> fs (world_of (on_success [''v'', ''a.avi''] [''v'', ''a.mp4''] stub_ledger
        (stub_world [(stub_ledger, File []), ([''v'', ''a.avi''], File ''data''),
                     ([''v'', ''a.mp4''], File ''converted'')]))) [''v'', ''a.avi.bak'']
       = Some (File ''data'')"
proof -
  let ?E = "stub_env [] (Succeeded ''converted'') []"
  let ?p = "[''v'', ''a.avi'']"
  let ?W = "stub_world [(stub_ledger, File []), ([''v'', ''a.avi''], File ''data''),
                     ([''v'', ''a.mp4''], File ''converted'')]"
  have me: "media_ext ?p" by (simp add: media_ext_def eval_defs)
  have ex: "fs ?W ?p = Some (File ''data'')" "File ''data'' \<noteq> Dir"
    by (simp_all add: stub_world_def stub_ledger_def)
  have led: "fs ?W (ledger_path ?E) = Some (File [])" by (simp add: eval_defs)
  have bd: "fs ?W (butlast ?p @ [path_name ?p @ ''.bak'']) \<noteq> Some Dir"
    by (simp add: eval_defs)
  have ps: "ledger_path ?E = stub_ledger" "butlast ?p @ [path_name ?p @ ''.bak''] = [''v'', ''a.avi.bak'']"
    by (simp_all add: eval_defs)
  from on_success_moves_source_and_records_destination [OF me ex led bd, of "[''v'', ''a.mp4'']"] me
  show ?thesis unfolding ps by simp
qed

end
